theory Spec2Isabelle
  imports Complex_Main "HOL-Library.Sublist"
begin

section \<open>Python values, errors and string helpers\<close>

text \<open>
  Exceptions are values of \<open>py_error\<close>; a function that may raise returns
  \<open>py_error + 'a\<close>. A finite Python float is the real number it denotes. The
  arithmetic on floats is not the arithmetic of the reals: every operation rounds its
  result to a double, and a power may overflow. The functions that compute with floats
  therefore take the float operations as a parameter (\<open>float_ops\<close> below); two
  instances are given, the exact arithmetic of the reals and IEEE 754 binary64 with
  rounding to nearest. Runs in which an intermediate result is an infinity or a NaN are
  not described by these operations.
\<close>

datatype py_error =
  TypeError | ValueError | AttributeError | ZeroDivisionError | OverflowError

text \<open>The dynamically typed values a numeric argument can take: an int, a (finite)
  float, or \<open>None\<close>.\<close>

datatype py_value = PyInt int | PyFloat real | PyNone

text \<open>\<open>int(x)\<close> on a float discards the fractional part (truncation toward zero).\<close>

definition py_trunc :: "real \<Rightarrow> int" where
  "py_trunc x = (if 0 \<le> x then \<lfloor>x\<rfloor> else \<lceil>x\<rceil>)"

fun py_int :: "py_value \<Rightarrow> py_error + int" where
  "py_int (PyInt n) = Inr n"
| "py_int (PyFloat x) = Inr (py_trunc x)"
| "py_int PyNone = Inl TypeError"

text \<open>
  The float operations: \<open>fround\<close> is the double a decimal literal or an integer
  denotes, \<open>fadd\<close>, \<open>fsub\<close>, \<open>fmul\<close>, \<open>fdiv\<close> are \<open>+\<close>, \<open>-\<close>, \<open>*\<close>, \<open>/\<close> on
  floats (the division by a non-zero float), and \<open>fpow\<close> is \<open>**\<close> with a float base
  and a positive integer exponent, which raises \<open>OverflowError\<close> when the result is
  out of range.
\<close>

record float_ops =
  fround :: "real \<Rightarrow> real"
  fadd :: "real \<Rightarrow> real \<Rightarrow> real"
  fsub :: "real \<Rightarrow> real \<Rightarrow> real"
  fmul :: "real \<Rightarrow> real \<Rightarrow> real"
  fdiv :: "real \<Rightarrow> real \<Rightarrow> real"
  fpow :: "real \<Rightarrow> int \<Rightarrow> py_error + real"



text \<open>\<open>d.get(key, default)\<close> on a dictionary given as an association list.\<close>

definition dict_get :: "('k \<times> 'v) list \<Rightarrow> 'k \<Rightarrow> 'v \<Rightarrow> 'v" where
  "dict_get d k dflt = (case map_of d k of Some v \<Rightarrow> v | None \<Rightarrow> dflt)"

text \<open>\<open>str.lower()\<close> is a parameter of the functions that call it. On ASCII text it
  is \<open>py_lower\<close>.\<close>

definition lower_char :: "char \<Rightarrow> char" where
  "lower_char c =
     (case map_of (zip ''ABCDEFGHIJKLMNOPQRSTUVWXYZ'' ''abcdefghijklmnopqrstuvwxyz'') c of
        Some d \<Rightarrow> d
      | None \<Rightarrow> c)"

definition py_lower :: "string \<Rightarrow> string" where
  "py_lower s = map lower_char s"

section \<open>financial\_engine.py: rate model and SIP sizing\<close>

definition risk_mapping :: "(int \<times> real) list" where
  "risk_mapping = [(1, 65 / 1000), (2, 8 / 100), (3, 105 / 1000), (4, 12 / 100), (5, 145 / 1000)]"

definition annual_return_from_risk :: "py_value \<Rightarrow> py_error + real" where
  "annual_return_from_risk risk_score =
     (case py_int risk_score of
        Inl e \<Rightarrow> Inl e
      | Inr k \<Rightarrow> Inr (dict_get risk_mapping k (1 / 10)))"





text \<open>A goal dictionary: \<open>None\<close> is an absent key. Amount and horizon hold any
  \<open>py_value\<close>; the goal name and priority are strings.\<close>

record goal =
  g_goal :: "string option"
  g_target_amount :: "py_value option"
  g_years :: "py_value option"
  g_priority :: "string option"


text \<open>The rupee sign U+20B9 in UTF-8.\<close>

definition rupee :: string where
  "rupee = [CHR 0xE2, CHR 0x82, CHR 0xB9]"





section \<open>Two instances of the float operations\<close>


text \<open>
  IEEE 754 binary64 with rounding to nearest, ties to even. A non-zero real \<open>x\<close> is
  rounded on the grid of the multiples of \<open>2\<^sup>e\<close>, where \<open>e\<close> is 52 below the binary
  exponent of \<open>x\<close>, and never below \<open>-1074\<close> (the subnormal numbers). A power
  overflows when its exact value reaches the midpoint \<open>2\<^sup>1\<^sup>0\<^sup>2\<^sup>4 - 2\<^sup>9\<^sup>7\<^sup>0\<close> between the
  largest double and \<open>2\<^sup>1\<^sup>0\<^sup>2\<^sup>4\<close>; a power with exponent 1 is its base. The other
  operations are described while their result stays in the range of the doubles.
\<close>

definition round_half_even :: "real \<Rightarrow> int" where
  "round_half_even y =
     (if y - of_int \<lfloor>y\<rfloor> < 1 / 2 then \<lfloor>y\<rfloor>
      else if 1 / 2 < y - of_int \<lfloor>y\<rfloor> then \<lfloor>y\<rfloor> + 1
      else if even \<lfloor>y\<rfloor> then \<lfloor>y\<rfloor> else \<lfloor>y\<rfloor> + 1)"

definition grid_exponent :: "real \<Rightarrow> int" where
  "grid_exponent x = max \<lfloor>log 2 \<bar>x\<bar>\<rfloor> (- 1022) - 52"

definition to_double :: "real \<Rightarrow> real" where
  "to_double x =
     (if x = 0 then 0
      else if 0 \<le> grid_exponent x
        then of_int (round_half_even (x / 2 ^ nat (grid_exponent x))) * 2 ^ nat (grid_exponent x)
        else of_int (round_half_even (x * 2 ^ nat (- grid_exponent x))) / 2 ^ nat (- grid_exponent x))"

definition binary64 :: float_ops where
  "binary64 = \<lparr>fround = to_double,
     fadd = (\<lambda>a b. to_double (a + b)), fsub = (\<lambda>a b. to_double (a - b)),
     fmul = (\<lambda>a b. to_double (a * b)), fdiv = (\<lambda>a b. to_double (a / b)),
     fpow = (\<lambda>b n. if n = 1 then Inr b
                    else if 2 ^ 1024 - 2 ^ 970 \<le> \<bar>b ^ nat n\<bar> then Inl OverflowError
                    else Inr (to_double (b ^ nat n)))\<rparr>"


definition house_goal :: goal where
  "house_goal = \<lparr>g_goal = Some ''House'', g_target_amount = Some (PyInt 1500000),
     g_years = Some (PyFloat 8), g_priority = Some ''High''\<rparr>"




text \<open>Relative error: \<open>approx\<close> is within the fraction \<open>u\<close> of \<open>exact\<close>.\<close>

definition accurate :: "real \<Rightarrow> real \<Rightarrow> real \<Rightarrow> bool" where
  "accurate u approx exact = (\<bar>approx - exact\<bar> \<le> u * \<bar>exact\<bar>)"

section \<open>financial\_engine.py: cash flow, alerts and card scoring\<close>

text \<open>A Python float: a number, an infinity or a NaN.\<close>

datatype xreal = Finite real | PosInf | NegInf | NaN

text \<open>The comparisons \<open>x < c\<close> and \<open>x >= c\<close> of a float with a number: every
  comparison with a NaN is false.\<close>

fun xreal_less :: "xreal \<Rightarrow> real \<Rightarrow> bool" where
  "xreal_less (Finite x) c = (x < c)"
| "xreal_less PosInf c = False"
| "xreal_less NegInf c = True"
| "xreal_less NaN c = False"

fun xreal_ge :: "xreal \<Rightarrow> real \<Rightarrow> bool" where
  "xreal_ge (Finite x) c = (c \<le> x)"
| "xreal_ge PosInf c = True"
| "xreal_ge NegInf c = False"
| "xreal_ge NaN c = False"

record cash_summary =
  surplus :: real
  runway_months :: xreal
  savings_rate :: real
  recommended_sip :: real

text \<open>\<open>if burn\<close> and \<open>if monthly_income\<close> test for a non-zero number.\<close>

definition summarize_cash_flow ::
  "real \<Rightarrow> real \<Rightarrow> real \<Rightarrow> real \<Rightarrow> real \<Rightarrow> real \<Rightarrow> cash_summary" where
  "summarize_cash_flow monthly_income monthly_expense existing_sips emi rec_sip cash_reserve =
     (let surplus_v = monthly_income - (monthly_expense + existing_sips + rec_sip + emi);
          burn = monthly_expense + emi;
          runway = (if burn \<noteq> 0 then Finite (cash_reserve / burn) else PosInf);
          rate = (if monthly_income \<noteq> 0
                  then max ((monthly_income - monthly_expense) / monthly_income) 0 else 0)
      in \<lparr>surplus = surplus_v, runway_months = runway, savings_rate = rate,
          recommended_sip = rec_sip\<rparr>)"

definition deficit_message :: string where
  "deficit_message =
     ''Projected monthly cash deficit could cause SIP or EMI misses. Increase income or cut variable spends.''"

definition thin_surplus_message :: string where
  "thin_surplus_message =
     ''Surplus under '' @ rupee
     @ ''5k; a single large bill can derail goals. Move discretionary spends to UPI alerts.''"

definition low_reserve_message :: "string \<Rightarrow> string" where
  "low_reserve_message shown =
     ''Emergency reserve covers only '' @ shown
     @ '' months. Target 6x monthly burn for resilience.''"

definition low_savings_message :: string where
  "low_savings_message =
     ''Savings rate below 20% of income. Automate transfers on salary day to raise investible surplus.''"

definition healthy_message :: string where
  "healthy_message = ''Cash runway and surplus look healthy for upcoming SIPs.''"

text \<open>The dictionary \<open>predictive_alerts\<close> reads: a float under each of the three keys.
  \<open>summary_dict\<close> is the dictionary \<open>summarize_cash_flow\<close> hands over.\<close>

record cash_dict =
  dict_surplus :: xreal
  dict_runway_months :: xreal
  dict_savings_rate :: xreal

definition summary_dict :: "cash_summary \<Rightarrow> cash_dict" where
  "summary_dict cs = \<lparr>dict_surplus = Finite (surplus cs), dict_runway_months = runway_months cs,
     dict_savings_rate = Finite (savings_rate cs)\<rparr>"

text \<open>\<open>predictive_alerts\<close>; the first argument is the \<open>:.1f\<close> formatting of the
  standard library, applied to the runway.\<close>

definition predictive_alerts :: "(xreal \<Rightarrow> string) \<Rightarrow> cash_dict \<Rightarrow> string list" where
  "predictive_alerts f1 cs =
     (let surplus_v = dict_surplus cs;
          runway = dict_runway_months cs;
          a1 = (if xreal_less surplus_v 0 then [deficit_message]
                else if xreal_less surplus_v 5000 then [thin_surplus_message] else []);
          a2 = a1 @ (if xreal_less runway 3 then [low_reserve_message (f1 runway)] else []);
          a3 = a2 @ (if xreal_less (dict_savings_rate cs) (2 / 10) then [low_savings_message]
                     else [])
      in if a3 = [] then [healthy_message] else a3)"

text \<open>A formatting that prints every runway alike, for runs whose texts do not matter.\<close>

definition plain_f1 :: "xreal \<Rightarrow> string" where
  "plain_f1 runway = ''?''"

text \<open>A credit card of the catalog: a dictionary read with \<open>item.get(key, default)\<close>;
  \<open>None\<close> is an absent key.\<close>

record card_item =
  card_min_income :: "real option"
  card_best_for :: "string list option"
  card_annual_fee :: "real option"

text \<open>\<open>score_card\<close>, a closure of \<open>recommend_products\<close> over \<open>income\<close> and
  \<open>lifestyle_tags = set(cat.lower() for cat in top_categories)\<close>. The first argument is
  \<open>str.lower\<close>.\<close>

definition lifestyle_tags :: "(string \<Rightarrow> string) \<Rightarrow> string list \<Rightarrow> string set" where
  "lifestyle_tags lower top_categories = set (map lower top_categories)"

definition score_card :: "(string \<Rightarrow> string) \<Rightarrow> real \<Rightarrow> string list \<Rightarrow> card_item \<Rightarrow> real" where
  "score_card lower income top_categories item =
     (let s0 = 0;
          s1 = (if income \<ge> (case card_min_income item of None \<Rightarrow> 0 | Some m \<Rightarrow> m)
                then s0 + 2 else s0);
          s2 = (if lifestyle_tags lower top_categories
                     \<inter> set (case card_best_for item of None \<Rightarrow> [] | Some ts \<Rightarrow> ts) \<noteq> {}
                then s1 + 15 / 10 else s1)
      in s2 - (case card_annual_fee item of None \<Rightarrow> 0 | Some fee \<Rightarrow> fee) / 10000)"


section \<open>backend: recommendation\_service.py\<close>

datatype RiskLevel = LOW | MEDIUM | HIGH

text \<open>The \<open>.value\<close> of the enumeration members.\<close>

fun risk_level_value :: "RiskLevel \<Rightarrow> string" where
  "risk_level_value LOW = ''low''"
| "risk_level_value MEDIUM = ''medium''"
| "risk_level_value HIGH = ''high''"

datatype ProductType =
  MUTUAL_FUND | SIP | FD | RD | STOCK | BOND | INSURANCE | PPF | CREDIT_CARD | OTHER

text \<open>The columns of \<open>Product\<close> that the scorer reads; a nullable column is an option.\<close>

record Product =
  product_type :: ProductType
  risk_level :: RiskLevel
  min_investment :: "real option"
  annual_fee :: "real option"
  rewards_type :: "string option"

text \<open>An entry of the \<open>user_profile\<close> dictionary: the key is absent, or it holds
  \<open>None\<close>, or it holds a value.\<close>

datatype 'a entry = Absent | Null | Val 'a

record user_profile =
  up_age :: "int entry"
  up_income :: "real entry"
  up_risk_tolerance :: "string entry"

text \<open>Truthiness of an optional number and of an optional string.\<close>

fun truthy_num :: "real option \<Rightarrow> bool" where
  "truthy_num None = False"
| "truthy_num (Some x) = (x \<noteq> 0)"

fun truthy_str :: "string option \<Rightarrow> bool" where
  "truthy_str None = False"
| "truthy_str (Some s) = (s \<noteq> [])"

text \<open>\<open>user_profile.get("income")\<close>, with an absent key read as \<open>None\<close>.\<close>

fun get_income :: "real entry \<Rightarrow> real option" where
  "get_income (Val x) = Some x"
| "get_income Null = None"
| "get_income Absent = None"

text \<open>\<open>ord(s[0])\<close>: the code point of the first character.\<close>

definition ord_first :: "string \<Rightarrow> int" where
  "ord_first s = of_char (hd s)"

definition tolerance_mapping :: "(string \<times> RiskLevel) list" where
  "tolerance_mapping = [(''conservative'', LOW), (''moderate'', MEDIUM), (''aggressive'', HIGH)]"

text \<open>\<open>user_risk = risk_mapping.get(user_profile.get("risk_tolerance", "moderate"))\<close>:
  the default applies to an absent key only, and an unknown name or \<open>None\<close> maps to
  \<open>None\<close>.\<close>

definition user_risk_of :: "user_profile \<Rightarrow> RiskLevel option" where
  "user_risk_of u =
     (case up_risk_tolerance u of
        Absent \<Rightarrow> map_of tolerance_mapping ''moderate''
      | Null \<Rightarrow> None
      | Val s \<Rightarrow> map_of tolerance_mapping s)"

text \<open>The blocks of \<open>_calculate_match_score\<close>, each taking the score so far. Reading
  \<open>.value\<close> of a \<open>None\<close> user risk raises \<open>AttributeError\<close>; comparing a \<open>None\<close> age
  with a number raises \<open>TypeError\<close>.\<close>

definition risk_tolerance_matching :: "Product \<Rightarrow> user_profile \<Rightarrow> real \<Rightarrow> py_error + real" where
  "risk_tolerance_matching p u score =
     (let user_risk = user_risk_of u in
      if Some (risk_level p) = user_risk then Inr (score + 3 / 10)
      else (case user_risk of
              None \<Rightarrow> Inl AttributeError
            | Some ur \<Rightarrow>
                if \<bar>ord_first (risk_level_value (risk_level p)) - ord_first (risk_level_value ur)\<bar> = 1
                then Inr (score + 15 / 100) else Inr score))"

definition income_based_matching :: "Product \<Rightarrow> user_profile \<Rightarrow> real \<Rightarrow> real" where
  "income_based_matching p u score =
     (if truthy_num (get_income (up_income u)) then
        (if truthy_num (min_investment p) \<and>
            the (min_investment p) \<le> the (get_income (up_income u)) * (1 / 10)
         then score + 1 / 10
         else if \<not> truthy_num (min_investment p) then score + 1 / 10
         else score)
      else score)"

definition age_based_matching :: "Product \<Rightarrow> user_profile \<Rightarrow> real \<Rightarrow> py_error + real" where
  "age_based_matching p u score =
     (case (case up_age u of Absent \<Rightarrow> Val 30 | e \<Rightarrow> e) of
        Val a \<Rightarrow>
          if a < 30 \<and> product_type p \<in> set [MUTUAL_FUND, SIP] then Inr (score + 1 / 10)
          else if a > 50 \<and> product_type p \<in> set [FD, PPF] then Inr (score + 1 / 10)
          else Inr score
      | _ \<Rightarrow> Inl TypeError)"

definition goal_horizon_bias :: "Product \<Rightarrow> real option \<Rightarrow> real \<Rightarrow> real" where
  "goal_horizon_bias p goal_horizon_months score =
     (if truthy_num goal_horizon_months then
        (if the goal_horizon_months \<le> 12
         then (if product_type p \<in> set [FD, RD, CREDIT_CARD] then score + 1 / 10 else score)
         else (if product_type p \<in> set [MUTUAL_FUND, SIP, INSURANCE, PPF] then score + 1 / 10
               else score))
      else score)"

definition credit_card_suitability :: "Product \<Rightarrow> user_profile \<Rightarrow> real \<Rightarrow> real" where
  "credit_card_suitability p u score =
     (if product_type p = CREDIT_CARD then
        (let s1 = (if truthy_num (get_income (up_income u)) \<and> truthy_num (annual_fee p) \<and>
                      the (annual_fee p) < the (get_income (up_income u)) * (2 / 100)
                   then score + 5 / 100 else score)
         in if truthy_str (rewards_type p) then s1 + 5 / 100 else s1)
      else score)"

definition calculate_match_score ::
  "Product \<Rightarrow> user_profile \<Rightarrow> real option \<Rightarrow> py_error + real" where
  "calculate_match_score p u goal_horizon_months =
     (case risk_tolerance_matching p u (1 / 2) of
        Inl e \<Rightarrow> Inl e
      | Inr s1 \<Rightarrow>
          (case age_based_matching p u (income_based_matching p u s1) of
             Inl e \<Rightarrow> Inl e
           | Inr s3 \<Rightarrow>
               Inr (min (credit_card_suitability p u (goal_horizon_bias p goal_horizon_months s3)) 1)))"

text \<open>Concrete products and users, used to instantiate the theorems below.\<close>

definition bond_fund :: "RiskLevel \<Rightarrow> Product" where
  "bond_fund lvl = \<lparr>product_type = BOND, risk_level = lvl, min_investment = Some 5000,
     annual_fee = None, rewards_type = None\<rparr>"

definition saver :: "string entry \<Rightarrow> user_profile" where
  "saver tol = \<lparr>up_age = Val 35, up_income = Val 20000, up_risk_tolerance = tol\<rparr>"

section \<open>backend: alert\_service.py\<close>

text \<open>
  The tables the alert service reads and writes, with the columns it uses. A
  \<open>datetime\<close> is a number of seconds, so that \<open>timedelta(days=n)\<close> is \<open>n * 86400\<close>,
  the \<open>.days\<close> of a difference is its quotient by 86400 rounded down, and the date of a
  timestamp is that same quotient.
\<close>

datatype AlertType =
  LOW_BALANCE | MISSED_SIP | GOAL_DEADLINE | BUDGET_EXCEEDED | OPPORTUNITY | RISK_WARNING
  | DUE_SOON | PAST_DUE | AUTO_PAY_FAIL

datatype AlertPriority = P_LOW | P_MEDIUM | P_HIGH | P_CRITICAL

datatype TransactionType = INCOME | EXPENSE | INVESTMENT | TRANSFER

datatype GoalStatus = G_ACTIVE | G_COMPLETED | G_PAUSED | G_CANCELLED

datatype ObligationStatus = O_ACTIVE | O_PAUSED | O_CLOSED

record Transaction =
  t_user_id :: int
  t_amount :: real
  t_type :: TransactionType
  t_date :: int

record Goal =
  gl_id :: int
  gl_user_id :: int
  gl_title :: string
  gl_target_amount :: real
  gl_current_amount :: "real option"
  gl_target_date :: int
  gl_status :: GoalStatus

record Obligation =
  ob_id :: int
  ob_user_id :: int
  ob_title :: string
  ob_amount :: real
  ob_due_date :: int
  ob_next_due_date :: "int option"
  ob_status :: ObligationStatus

record User =
  usr_id :: int
  usr_income :: "real option"

record Alert =
  al_user_id :: int
  al_type :: AlertType
  al_title :: string
  al_message :: string
  al_priority :: AlertPriority
  al_is_read :: bool
  al_metadata :: "string option"
  al_created_at :: int

record database =
  db_transactions :: "Transaction list"
  db_goals :: "Goal list"
  db_obligations :: "Obligation list"
  db_users :: "User list"
  db_alerts :: "Alert list"


definition day :: int where
  "day = 86400"
























section \<open>Properties of the rate model and the goal planner\<close>

subsection \<open>Evaluating the rounding to a double\<close>





text \<open>In the normal range the rounding has a relative error of at most \<open>2\<^sup>-\<^sup>5\<^sup>3\<close>.\<close>

lemma round_half_even_near: "\<bar>of_int (round_half_even y) - y\<bar> \<le> 1 / 2"
proof -
  have "of_int \<lfloor>y\<rfloor> \<le> y" "y < of_int \<lfloor>y\<rfloor> + 1" by linarith+
  then show ?thesis by (auto simp: round_half_even_def)
qed

lemma to_double_accurate:
  assumes "1 / 2 ^ 1022 \<le> \<bar>x\<bar>"
  shows "accurate (1 / 2 ^ 53) (to_double x) x"
proof -
  have pos: "0 < \<bar>x\<bar>" using assms by (smt (verit) zero_less_power divide_pos_pos)
  then have nz: "x \<noteq> 0" by simp
  define L where "L = \<lfloor>log 2 \<bar>x\<bar>\<rfloor>"
  define e where "e = L - 52"
  define s :: real where "s = 2 powr (- real_of_int e)"
  have spos: "0 < s" by (simp add: s_def)
  have l: "log 2 (\<bar>x\<bar> * 2 ^ j) = log 2 \<bar>x\<bar> + real j" for j :: nat
    using pos by (simp add: log_mult log_nat_power)
  have "1 \<le> \<bar>x\<bar> * 2 ^ 1022" using assms by (simp add: field_simps)
  then have "log 2 1 \<le> log 2 (\<bar>x\<bar> * 2 ^ 1022)"
    using pos by (subst log_le_cancel_iff) auto
  then have "0 \<le> log 2 \<bar>x\<bar> + real (1022 :: nat)" by (simp only: l log_one)
  then have "- 1022 \<le> log 2 \<bar>x\<bar>" by simp
  then have L: "- 1022 \<le> L" unfolding L_def by linarith
  then have g: "grid_exponent x = e" by (simp add: grid_exponent_def e_def L_def)
  have form: "to_double x = of_int (round_half_even (x * s)) / s"
  proof (cases "0 \<le> e")
    case True
    then have "s = 1 / 2 ^ nat e"
      by (simp add: s_def powr_minus powr_realpow [symmetric] inverse_eq_divide)
    with True nz show ?thesis by (simp add: to_double_def g)
  next
    case False
    then have "s = 2 ^ nat (- e)"
      by (simp add: s_def powr_realpow [symmetric])
    with False nz show ?thesis by (simp add: to_double_def g)
  qed
  have "to_double x - x = (of_int (round_half_even (x * s)) - x * s) / s"
    unfolding form using spos by (simp add: diff_divide_distrib)
  then have "\<bar>to_double x - x\<bar> = \<bar>of_int (round_half_even (x * s)) - x * s\<bar> / s"
    using spos by (simp add: abs_divide)
  also have "\<dots> \<le> (1 / 2) / s"
    by (rule divide_right_mono [OF round_half_even_near]) (use spos in simp)
  also have "\<dots> = 2 powr (real_of_int L) * (1 / 2 ^ 53)"
  proof -
    have "1 / s = 2 powr (real_of_int e)" by (simp add: s_def powr_minus inverse_eq_divide)
    also have "\<dots> = 2 powr (real_of_int L) * 2 powr (- 52)"
      by (simp add: e_def powr_add [symmetric])
    also have "(2::real) powr (- 52) = 1 / 2 ^ 52"
      by (simp add: powr_minus inverse_eq_divide)
    finally show ?thesis by simp
  qed
  also have "\<dots> \<le> \<bar>x\<bar> * (1 / 2 ^ 53)"
  proof (rule mult_right_mono)
    have "2 powr (real_of_int L) \<le> 2 powr (log 2 \<bar>x\<bar>)"
      unfolding L_def by (rule powr_mono) simp_all
    also have "\<dots> = \<bar>x\<bar>" using pos by simp
    finally show "2 powr (real_of_int L) \<le> \<bar>x\<bar>" .
  qed simp
  finally show ?thesis by (simp add: accurate_def mult.commute)
qed


























subsection \<open>The binary64 operations at the points used below\<close>

lemma binary64_ops:
  "fround binary64 x = to_double x"
  "fadd binary64 a b = to_double (a + b)"
  "fsub binary64 a b = to_double (a - b)"
  "fmul binary64 a b = to_double (a * b)"
  "fdiv binary64 a b = to_double (a / b)"
  "fpow binary64 a 1 = Inr a"
  by (simp_all add: binary64_def)

text \<open>Sums, differences, products and quotients of doubles whose exact value is in the
  normal range are accurate to \<open>2\<^sup>-\<^sup>5\<^sup>3\<close>, and so to \<open>10\<^sup>-\<^sup>1\<^sup>5\<close>.\<close>

lemma accurate_mono:
  assumes "accurate u a e" "u \<le> v"
  shows "accurate v a e"
proof -
  have "u * \<bar>e\<bar> \<le> v * \<bar>e\<bar>" by (rule mult_right_mono [OF assms(2)]) simp
  with assms(1) show ?thesis unfolding accurate_def by linarith
qed

lemma binary64_accurate:
  "1 / 2 ^ 1022 \<le> \<bar>a + b\<bar> \<Longrightarrow> accurate (1 / 10 ^ 15) (fadd binary64 a b) (a + b)"
  "1 / 2 ^ 1022 \<le> \<bar>a - b\<bar> \<Longrightarrow> accurate (1 / 10 ^ 15) (fsub binary64 a b) (a - b)"
  "1 / 2 ^ 1022 \<le> \<bar>a * b\<bar> \<Longrightarrow> accurate (1 / 10 ^ 15) (fmul binary64 a b) (a * b)"
  "1 / 2 ^ 1022 \<le> \<bar>a / b\<bar> \<Longrightarrow> accurate (1 / 10 ^ 15) (fdiv binary64 a b) (a / b)"
  unfolding binary64_ops
  by (rule accurate_mono [OF to_double_accurate], assumption, simp)+







subsection \<open>The planner in terms of one SIP computation\<close>











subsection \<open>Number of months\<close>





subsection \<open>Round trip of the SIP formula\<close>















subsection \<open>Monotonicity in the risk score\<close>










subsection \<open>The rate table\<close>

text \<open>
  Claim C4, as the specification states it, says every score outside the integers 1 to 5,
  non-integer and missing ones included, gives the default 0.10 and that nothing fails.
  In the source the score goes through \<open>int()\<close> first: 2.7 becomes 2 and gives 0.08,
  and \<open>None\<close> raises \<open>TypeError\<close>.
\<close>

theorem annual_return_default_counterexample:
  "annual_return_from_risk (PyFloat (27 / 10)) = Inr (8 / 100) \<and>
   annual_return_from_risk (PyFloat (27 / 10)) \<noteq> Inr (1 / 10) \<and>
   annual_return_from_risk PyNone = Inl TypeError"
  by (simp add: annual_return_from_risk_def py_trunc_def risk_mapping_def dict_get_def)

text \<open>
  Claim C4, amended. On every integer score the function returns a rate and does not
  fail: the table value for 1 to 5 and the default 0.10 for any other integer. A float
  score is truncated toward zero and then looked up as that integer.
\<close>

theorem annual_return_on_numbers:
  "annual_return_from_risk (PyInt n) =
     Inr (if n = 1 then 65 / 1000 else if n = 2 then 8 / 100 else if n = 3 then 105 / 1000
          else if n = 4 then 12 / 100 else if n = 5 then 145 / 1000 else 1 / 10) \<and>
   annual_return_from_risk (PyFloat x) = annual_return_from_risk (PyInt (py_trunc x))"
  by (simp add: annual_return_from_risk_def risk_mapping_def dict_get_def)

theorem annual_return_on_numbers_witness:
  "annual_return_from_risk (PyInt 3) = Inr (105 / 1000) \<and>
   annual_return_from_risk (PyInt 0) = Inr (1 / 10) \<and>
   annual_return_from_risk (PyFloat (27 / 10)) = Inr (8 / 100)"
  using annual_return_on_numbers [of 3 "27 / 10"] annual_return_on_numbers [of 0 "27 / 10"]
    annual_return_on_numbers [of 2 "27 / 10"]
  by (simp add: py_trunc_def)


section \<open>Properties of the cash-flow summary, the alerts and the card score\<close>

text \<open>
  Claim C6. For non-negative inputs, \<open>summarize_cash_flow\<close> returns the surplus
  \<open>income - (expense + existing + recommended + debt service)\<close>; the runway
  \<open>cash_reserve / (expense + debt service)\<close> when that burn is positive and infinity when
  it is zero; and the savings rate \<open>max((income - expense) / income, 0)\<close> when income is
  positive and 0 when it is zero.
\<close>

theorem summarize_cash_flow_formulas:
  assumes "0 \<le> income" "0 \<le> expense" "0 \<le> existing" "0 \<le> emi" "0 \<le> rec_sip" "0 \<le> reserve"
  shows "surplus (summarize_cash_flow income expense existing emi rec_sip reserve)
           = income - (expense + existing + rec_sip + emi) \<and>
         runway_months (summarize_cash_flow income expense existing emi rec_sip reserve)
           = (if 0 < expense + emi then Finite (reserve / (expense + emi)) else PosInf) \<and>
         savings_rate (summarize_cash_flow income expense existing emi rec_sip reserve)
           = (if 0 < income then max ((income - expense) / income) 0 else 0)"
proof -
  have burn: "(expense + emi \<noteq> 0) = (0 < expense + emi)" using assms(2,4) by linarith
  have inc: "(income \<noteq> 0) = (0 < income)" using assms(1) by linarith
  show ?thesis
    unfolding summarize_cash_flow_def Let_def burn inc by simp
qed

theorem summarize_cash_flow_formulas_witness:
  "surplus (summarize_cash_flow 100000 40000 5000 10000 20000 150000) = 25000 \<and>
   runway_months (summarize_cash_flow 100000 40000 5000 10000 20000 150000) = Finite 3 \<and>
   savings_rate (summarize_cash_flow 100000 40000 5000 10000 20000 150000) = 6 / 10 \<and>
   runway_months (summarize_cash_flow 0 0 0 0 0 150000) = PosInf \<and>
   savings_rate (summarize_cash_flow 0 0 0 0 0 150000) = 0"
proof -
  have a: "(0::real) \<le> 100000" "(0::real) \<le> 40000" "(0::real) \<le> 5000"
    "(0::real) \<le> 10000" "(0::real) \<le> 20000" "(0::real) \<le> 150000" by simp_all
  have z: "(0::real) \<le> 0" by simp
  from summarize_cash_flow_formulas [OF a] summarize_cash_flow_formulas [OF z z z z z a(6)]
  show ?thesis by simp
qed

text \<open>
  Claim C5, as the specification states it, says the healthy message is returned alone
  exactly when the surplus is at least 5000, the runway at least 3 months and the
  savings rate at least 0.20. The source tests \<open>surplus < 0\<close>, \<open>surplus < 5000\<close>,
  \<open>runway < 3\<close> and \<open>savings_rate < 0.2\<close>, and every comparison with a NaN is false:
  a summary whose surplus is a NaN gets the healthy message although \<open>surplus >= 5000\<close>
  does not hold.
\<close>

theorem healthy_message_nan_counterexample:
  "predictive_alerts plain_f1
      \<lparr>dict_surplus = NaN, dict_runway_months = Finite 6, dict_savings_rate = Finite (3 / 10)\<rparr>
     = [healthy_message] \<and>
   \<not> xreal_ge (dict_surplus
      \<lparr>dict_surplus = NaN, dict_runway_months = Finite 6, dict_savings_rate = Finite (3 / 10)\<rparr>)
      5000"
  by (simp add: predictive_alerts_def)

text \<open>
  Claim C5, amended. \<open>predictive_alerts\<close> returns exactly one message, the healthy
  message, if and only if none of the tests \<open>surplus < 5000\<close>, \<open>runway < 3\<close> and
  \<open>savings_rate < 0.20\<close> holds; in every other case the healthy message is not among the
  messages returned. When none of the three values is a NaN, the condition is that the
  surplus is at least 5000, the runway at least 3 months (an infinite runway counts) and
  the savings rate at least 0.20.
\<close>

theorem healthy_message_iff:
  "(predictive_alerts f1 cs = [healthy_message]) =
     (\<not> xreal_less (dict_surplus cs) 5000 \<and> \<not> xreal_less (dict_runway_months cs) 3
        \<and> \<not> xreal_less (dict_savings_rate cs) (2 / 10)) \<and>
   (healthy_message \<in> set (predictive_alerts f1 cs)) =
     (predictive_alerts f1 cs = [healthy_message]) \<and>
   (dict_surplus cs \<noteq> NaN \<and> dict_runway_months cs \<noteq> NaN \<and> dict_savings_rate cs \<noteq> NaN
     \<longrightarrow> (predictive_alerts f1 cs = [healthy_message]) =
       (xreal_ge (dict_surplus cs) 5000 \<and> xreal_ge (dict_runway_months cs) 3
          \<and> xreal_ge (dict_savings_rate cs) (2 / 10)))"
proof -
  have d: "deficit_message \<noteq> healthy_message" "thin_surplus_message \<noteq> healthy_message"
    "low_savings_message \<noteq> healthy_message" "low_reserve_message s \<noteq> healthy_message" for s
    by (simp_all add: deficit_message_def thin_surplus_message_def low_savings_message_def
        low_reserve_message_def healthy_message_def)
  note d' = d [symmetric]
  have below: "xreal_less x 0 \<Longrightarrow> xreal_less x 5000" for x
    by (cases x) simp_all
  have ge: "x \<noteq> NaN \<Longrightarrow> xreal_ge x c = (\<not> xreal_less x c)" for x c
    by (cases x) auto
  have one: "(predictive_alerts f1 cs = [healthy_message]) =
     (\<not> xreal_less (dict_surplus cs) 5000 \<and> \<not> xreal_less (dict_runway_months cs) 3
        \<and> \<not> xreal_less (dict_savings_rate cs) (2 / 10))"
    using below [of "dict_surplus cs"]
    by (auto simp: predictive_alerts_def Let_def d d')
  have two: "(healthy_message \<in> set (predictive_alerts f1 cs)) =
     (predictive_alerts f1 cs = [healthy_message])"
    by (auto simp: predictive_alerts_def Let_def d d')
  from one two show ?thesis by (simp add: ge)
qed

theorem healthy_message_iff_witness:
  "predictive_alerts (\<lambda>r. ''2.0'')
      \<lparr>dict_surplus = Finite 25000, dict_runway_months = PosInf, dict_savings_rate = Finite (6 / 10)\<rparr>
     = [healthy_message] \<and>
   healthy_message \<notin> set (predictive_alerts (\<lambda>r. ''2.0'')
      \<lparr>dict_surplus = Finite 25000, dict_runway_months = Finite 2, dict_savings_rate = Finite (6 / 10)\<rparr>)"
  using healthy_message_iff [of "\<lambda>r. ''2.0''"
      "\<lparr>dict_surplus = Finite 25000, dict_runway_months = PosInf, dict_savings_rate = Finite (6 / 10)\<rparr>"]
    healthy_message_iff [of "\<lambda>r. ''2.0''"
      "\<lparr>dict_surplus = Finite 25000, dict_runway_months = Finite 2, dict_savings_rate = Finite (6 / 10)\<rparr>"]
  by simp

text \<open>
  Claim C8, as the specification states it, says the +1.5 is earned whenever a tag and a
  category agree up to letter case on either side. The source lower-cases the caller's
  categories only and compares the item's tags as they are: the tag \<open>Travel\<close> does not
  match the category \<open>travel\<close>.
\<close>

theorem score_card_case_counterexample:
  "score_card py_lower 0 [''travel'']
     \<lparr>card_min_income = None, card_best_for = Some [''Travel''], card_annual_fee = None\<rparr> = 2 \<and>
   py_lower ''Travel'' = py_lower ''travel''"
  by (simp add: score_card_def lifestyle_tags_def py_lower_def lower_char_def)

text \<open>
  Claim C8, amended. Whatever \<open>str.lower\<close> does to a string, +1.5 is added exactly when
  some tag of the item is equal to the lower-cased form of one of the caller's
  categories: letter case is ignored on the caller's side, and the item's tags are
  compared verbatim. The whole score is 2.0 when the income reaches the item's minimum
  income, plus that 1.5, minus a ten-thousandth of the annual fee.
\<close>

theorem score_card_value:
  "score_card lower income cats item =
     (if (case card_min_income item of None \<Rightarrow> 0 | Some m \<Rightarrow> m) \<le> income then 2 else 0)
     + (if \<exists>c\<in>set cats. lower c \<in> set (case card_best_for item of None \<Rightarrow> [] | Some ts \<Rightarrow> ts)
        then 15 / 10 else 0)
     - (case card_annual_fee item of None \<Rightarrow> 0 | Some fee \<Rightarrow> fee) / 10000"
proof -
  have "(lifestyle_tags lower cats
          \<inter> set (case card_best_for item of None \<Rightarrow> [] | Some ts \<Rightarrow> ts) \<noteq> {})
      = (\<exists>c\<in>set cats. lower c \<in> set (case card_best_for item of None \<Rightarrow> [] | Some ts \<Rightarrow> ts))"
    by (auto simp: lifestyle_tags_def)
  then show ?thesis by (simp add: score_card_def Let_def)
qed

theorem score_card_value_witness:
  "score_card py_lower 50000 [''TRAVEL'', ''Dining'']
     \<lparr>card_min_income = Some 40000, card_best_for = Some [''travel''], card_annual_fee = Some 5000\<rparr> = 3"
  using score_card_value [of py_lower 50000 "[''TRAVEL'', ''Dining'']"
      "\<lparr>card_min_income = Some 40000, card_best_for = Some [''travel''], card_annual_fee = Some 5000\<rparr>"]
  by (simp add: py_lower_def lower_char_def)


section \<open>Properties of the backend match score\<close>

subsection \<open>Each block adds a non-negative bonus\<close>

lemma ord_first_values:
  "ord_first (risk_level_value LOW) = 108" "ord_first (risk_level_value MEDIUM) = 109"
  "ord_first (risk_level_value HIGH) = 104"
  by (simp_all add: ord_first_def)

lemma risk_tolerance_matching_shift:
  "risk_tolerance_matching p u s =
     (case risk_tolerance_matching p u 0 of Inl e \<Rightarrow> Inl e | Inr b \<Rightarrow> Inr (s + b))"
  by (simp add: risk_tolerance_matching_def Let_def split: option.splits)

lemma risk_tolerance_matching_raises:
  "(\<exists>e. risk_tolerance_matching p u 0 = Inl e) = (user_risk_of u = None)"
  by (auto simp: risk_tolerance_matching_def Let_def split: option.splits)

lemma risk_tolerance_matching_nonneg:
  "risk_tolerance_matching p u 0 = Inr b \<Longrightarrow> 0 \<le> b"
  by (auto simp: risk_tolerance_matching_def Let_def split: option.splits if_splits)

lemma income_based_matching_shift:
  "income_based_matching p u s = s + income_based_matching p u 0"
  by (simp add: income_based_matching_def)

lemma income_based_matching_nonneg: "0 \<le> income_based_matching p u 0"
  by (simp add: income_based_matching_def)

lemma age_based_matching_shift:
  "age_based_matching p u s =
     (case age_based_matching p u 0 of Inl e \<Rightarrow> Inl e | Inr b \<Rightarrow> Inr (s + b))"
  by (cases "up_age u") (simp_all add: age_based_matching_def)

lemma age_based_matching_raises:
  "(\<exists>e. age_based_matching p u 0 = Inl e) = (up_age u = Null)"
  by (cases "up_age u") (simp_all add: age_based_matching_def)

lemma age_based_matching_nonneg:
  "age_based_matching p u 0 = Inr b \<Longrightarrow> 0 \<le> b"
  by (cases "up_age u") (auto simp: age_based_matching_def split: if_splits)

lemma goal_horizon_bias_shift: "goal_horizon_bias p g s = s + goal_horizon_bias p g 0"
  by (simp add: goal_horizon_bias_def)

lemma goal_horizon_bias_nonneg: "0 \<le> goal_horizon_bias p g 0"
  by (simp add: goal_horizon_bias_def)

lemma credit_card_suitability_shift:
  "credit_card_suitability p u s = s + credit_card_suitability p u 0"
  by (simp add: credit_card_suitability_def Let_def)

lemma credit_card_suitability_nonneg: "0 \<le> credit_card_suitability p u 0"
  by (simp add: credit_card_suitability_def Let_def)

lemma calculate_match_score_sum:
  assumes "risk_tolerance_matching p u 0 = Inr b1" "age_based_matching p u 0 = Inr b3"
  shows "calculate_match_score p u g =
     Inr (min (1 / 2 + b1 + income_based_matching p u 0 + b3 + goal_horizon_bias p g 0
                + credit_card_suitability p u 0) 1)"
proof -
  have 1: "risk_tolerance_matching p u (1 / 2) = Inr (1 / 2 + b1)"
    using assms(1) by (subst risk_tolerance_matching_shift) simp
  have 3: "age_based_matching p u s = Inr (s + b3)" for s
    using assms(2) by (subst age_based_matching_shift) simp
  show ?thesis
    unfolding calculate_match_score_def 1 3
    by (simp add: income_based_matching_shift [of p u "1 / 2 + b1"]
        goal_horizon_bias_shift [of p g "1 / 2 + b1 + income_based_matching p u 0 + b3"]
        credit_card_suitability_shift [of p u
          "1 / 2 + b1 + income_based_matching p u 0 + b3 + goal_horizon_bias p g 0"])
qed

lemma calculate_match_score_raises:
  "(\<exists>e. calculate_match_score p u g = Inl e) = (user_risk_of u = None \<or> up_age u = Null)"
proof (cases "risk_tolerance_matching p u 0")
  case (Inl e)
  then have "user_risk_of u = None" using risk_tolerance_matching_raises [of p u] by auto
  moreover have "risk_tolerance_matching p u (1 / 2) = Inl e"
    using Inl by (subst risk_tolerance_matching_shift) simp
  ultimately show ?thesis by (simp add: calculate_match_score_def)
next
  case (Inr b1)
  then have r: "user_risk_of u \<noteq> None" using risk_tolerance_matching_raises [of p u] by auto
  show ?thesis
  proof (cases "age_based_matching p u 0")
    case (Inl e)
    then have a: "up_age u = Null" using age_based_matching_raises [of p u] by auto
    have "risk_tolerance_matching p u (1 / 2) = Inr (1 / 2 + b1)"
      using Inr by (subst risk_tolerance_matching_shift) simp
    moreover have "age_based_matching p u s = Inl e" for s
      using Inl by (subst age_based_matching_shift) simp
    ultimately show ?thesis using a by (simp add: calculate_match_score_def)
  next
    case b3: (Inr b3)
    then have a: "up_age u \<noteq> Null" using age_based_matching_raises [of p u] by auto
    from calculate_match_score_sum [OF Inr b3] r a show ?thesis by simp
  qed
qed

subsection \<open>Range of the score\<close>

text \<open>
  Claim C10. For every product, user profile and goal horizon, a score returned by
  \<open>calculate_match_score\<close> lies in the closed interval from 0.5 to 1.0, and it is
  strictly above 0.5 exactly when at least one block of the scorer adds a bonus. The
  function returns a score exactly for the profiles whose risk tolerance is absent or one
  of the three known names and whose age is not \<open>None\<close>; for the others it raises and
  returns no score.
\<close>

theorem match_score_range:
  "(case calculate_match_score p u g of
      Inr s \<Rightarrow> 1 / 2 \<le> s \<and> s \<le> 1 \<and>
        ((1 / 2 < s) =
          (\<not> (risk_tolerance_matching p u 0 = Inr 0 \<and> income_based_matching p u 0 = 0 \<and>
               age_based_matching p u 0 = Inr 0 \<and> goal_horizon_bias p g 0 = 0 \<and>
               credit_card_suitability p u 0 = 0)))
    | Inl e \<Rightarrow> user_risk_of u = None \<or> up_age u = Null) \<and>
   ((\<exists>s. calculate_match_score p u g = Inr s) = (user_risk_of u \<noteq> None \<and> up_age u \<noteq> Null))"
proof (cases "calculate_match_score p u g")
  case (Inl e)
  with calculate_match_score_raises [of p u g] show ?thesis by auto
next
  case (Inr s)
  with calculate_match_score_raises [of p u g]
  have ok: "user_risk_of u \<noteq> None" "up_age u \<noteq> Null" by auto
  obtain b1 where b1: "risk_tolerance_matching p u 0 = Inr b1"
    using ok(1) risk_tolerance_matching_raises [of p u]
    by (cases "risk_tolerance_matching p u 0") auto
  obtain b3 where b3: "age_based_matching p u 0 = Inr b3"
    using ok(2) age_based_matching_raises [of p u]
    by (cases "age_based_matching p u 0") auto
  define b2 where "b2 = income_based_matching p u 0"
  define b4 where "b4 = goal_horizon_bias p g 0"
  define b5 where "b5 = credit_card_suitability p u 0"
  have nn: "0 \<le> b1" "0 \<le> b2" "0 \<le> b3" "0 \<le> b4" "0 \<le> b5"
    using risk_tolerance_matching_nonneg [OF b1] age_based_matching_nonneg [OF b3]
      income_based_matching_nonneg [of p u] goal_horizon_bias_nonneg [of p g]
      credit_card_suitability_nonneg [of p u]
    by (simp_all add: b2_def b4_def b5_def)
  have s: "s = min (1 / 2 + b1 + b2 + b3 + b4 + b5) 1"
    using calculate_match_score_sum [OF b1 b3, of g] Inr by (simp add: b2_def b4_def b5_def)
  have "1 / 2 \<le> s" "s \<le> 1" using s nn by auto
  moreover have "(1 / 2 < s) = (\<not> (b1 = 0 \<and> b2 = 0 \<and> b3 = 0 \<and> b4 = 0 \<and> b5 = 0))"
    using s nn by auto
  ultimately show ?thesis
    using Inr ok b1 b3 by (simp add: b2_def b4_def b5_def)
qed

theorem match_score_range_witness:
  "\<exists>s. calculate_match_score (bond_fund MEDIUM) (saver Absent) (Some 24) = Inr s \<and>
     1 / 2 < s \<and> s \<le> 1"
proof -
  have "user_risk_of (saver Absent) \<noteq> None" "up_age (saver Absent) \<noteq> Null"
    by (simp_all add: user_risk_of_def saver_def tolerance_mapping_def)
  moreover have "risk_tolerance_matching (bond_fund MEDIUM) (saver Absent) 0 \<noteq> Inr 0"
    by (simp add: risk_tolerance_matching_def user_risk_of_def saver_def tolerance_mapping_def
        bond_fund_def)
  ultimately show ?thesis
    using match_score_range [where p = "bond_fund MEDIUM" and u = "saver Absent" and g = "Some 24"]
    by auto
qed

subsection \<open>The adjacent-tier bonus\<close>

text \<open>
  Claim C7 says that a product one tier away from the user's tier, in the order low,
  medium, high, earns +0.15. The source decides adjacency by the code points of the first
  letters of the tier names: \<open>l\<close> and \<open>m\<close> are 108 and 109, \<open>h\<close> is 104. A product
  with no other bonus scores 0.65 for the pair low/medium, but 0.5 for the pair
  medium/high in either direction, the same as for the pair low/high.
\<close>

theorem medium_high_pair_earns_no_bonus:
  "calculate_match_score (bond_fund HIGH) (saver (Val ''moderate'')) None = Inr (1 / 2) \<and>
   calculate_match_score (bond_fund MEDIUM) (saver (Val ''aggressive'')) None = Inr (1 / 2) \<and>
   calculate_match_score (bond_fund LOW) (saver (Val ''moderate'')) None = Inr (65 / 100) \<and>
   calculate_match_score (bond_fund MEDIUM) (saver (Val ''conservative'')) None = Inr (65 / 100) \<and>
   calculate_match_score (bond_fund LOW) (saver (Val ''aggressive'')) None = Inr (1 / 2)"
  by (simp add: calculate_match_score_def risk_tolerance_matching_def income_based_matching_def
      age_based_matching_def goal_horizon_bias_def credit_card_suitability_def bond_fund_def
      saver_def user_risk_of_def tolerance_mapping_def ord_first_def)

section \<open>Properties of the persisted alert generator\<close>

subsection \<open>Each check leaves a matching unread alert behind\<close>

lemma db_alerts_append_Nil: "db\<lparr>db_alerts := db_alerts db @ []\<rparr> = db"
  by simp


























lemma db_alerts_update_twice: "db\<lparr>db_alerts := A\<rparr>\<lparr>db_alerts := B\<rparr> = db\<lparr>db_alerts := B\<rparr>"
  by simp

lemma db_alerts_update_same: "db\<lparr>db_alerts := db_alerts db\<rparr> = db"
  by simp



subsection \<open>Running the generator twice\<close>




end
